theory Spec2Isabelle
  imports Main
begin

section \<open>The Explore plugin's tool-filtering view\<close>

text \<open>
  A shallow embedding of \<^verbatim>\<open>ToolExplorerContent.tsx\<close>: the React component that shows a
  card grid of tools, two multi-select filters (tags, lifecycle) bound to the URL query,
  and two asynchronous loaders built with \<^verbatim>\<open>useAsyncFn\<close>.
\<close>

subsection \<open>Data\<close>

text \<open>
  Modelled from the spec: the type declarations of the package
  \<^verbatim>\<open>@backstage-community/plugin-explore-common\<close> (\<^verbatim>\<open>ExploreTool\<close>,
  \<^verbatim>\<open>GetExploreToolsRequest\<close> and the response of \<^verbatim>\<open>getTools\<close>) are imported by the
  component but are not among the source files. An optional field is an \<open>option\<close>,
  \<open>None\<close> standing for \<^verbatim>\<open>undefined\<close>.
\<close>

record ExploreTool =
  title :: string
  description :: string
  url :: string
  image :: "string option"
  tags :: "string list option"
  lifecycle :: "string option"

record ExploreToolsFilter =
  filter_tags :: "string list option"
  filter_lifecycle :: "string list option"

record GetExploreToolsRequest =
  req_filter :: "ExploreToolsFilter option"

record GetExploreToolsResponse =
  tools :: "ExploreTool list option"

text \<open>
  A rejected promise carries an \<^verbatim>\<open>Error\<close> object; only its message is kept. An
  \<^verbatim>\<open>Error\<close> object is truthy in JavaScript whatever its message.
\<close>

datatype js_error = Error string

text \<open>How a promise settles.\<close>

datatype 'a promise = Fulfilled 'a | Rejected js_error

text \<open>
  The client \<^verbatim>\<open>exploreApi.getTools(request?)\<close>: \<open>None\<close> as argument is a call
  without argument; \<open>Fulfilled None\<close> is a promise resolved with a nullish response.
\<close>

type_synonym explore_api =
  "GetExploreToolsRequest option \<Rightarrow> GetExploreToolsResponse option promise"

subsection \<open>JavaScript arrays and sets\<close>

text \<open>
  \<^verbatim>\<open>Array.prototype.flat()\<close> (depth 1) on an array whose elements are strings or arrays
  of strings: a string stays, an array is spliced in, an empty array disappears.
\<close>

datatype flat_item = Str string | Arr "string list"

fun flat_one :: "flat_item \<Rightarrow> string list" where
  "flat_one (Str s) = [s]"
| "flat_one (Arr xs) = xs"

definition flat :: "flat_item list \<Rightarrow> string list" where
  "flat xs = concat (map flat_one xs)"

text \<open>
  \<^verbatim>\<open>new Set(iterable)\<close> adds the elements one by one; \<^verbatim>\<open>Set.prototype.add\<close> appends a
  value that is not yet a member and ignores one that is. A set is represented by the
  list of its members in insertion order, which is what \<^verbatim>\<open>Array.from(set)\<close> returns.
\<close>

definition Set_add :: "'a list \<Rightarrow> 'a \<Rightarrow> 'a list" where
  "Set_add s x = (if x \<in> set s then s else s @ [x])"

definition new_Set :: "'a list \<Rightarrow> 'a list" where
  "new_Set xs = foldl Set_add [] xs"

definition Array_from :: "'a list \<Rightarrow> 'a list" where
  "Array_from s = s"

subsection \<open>The derived options (\<^verbatim>\<open>fetchTagsAndLifeCycles\<close>)\<close>

record tag_options =
  opt_tags :: "string list"
  opt_lifecycles :: "string list"

text \<open>\<^verbatim>\<open>tool.tags ?? []\<close> and \<^verbatim>\<open>tool.lifecycle ?? []\<close>.\<close>

definition tags_or_empty :: "ExploreTool \<Rightarrow> flat_item" where
  "tags_or_empty tool = (case tags tool of None \<Rightarrow> Arr [] | Some ts \<Rightarrow> Arr ts)"

definition lifecycle_or_empty :: "ExploreTool \<Rightarrow> flat_item" where
  "lifecycle_or_empty tool = (case lifecycle tool of None \<Rightarrow> Arr [] | Some l \<Rightarrow> Str l)"

text \<open>The part of the function after the \<^verbatim>\<open>!allTools\<close> guard (lines 111 to 119).\<close>

definition uniqueOptions :: "ExploreTool list \<Rightarrow> tag_options" where
  "uniqueOptions allTools =
     (let uniqueTags = new_Set (flat (map tags_or_empty allTools));
          uniqueLifecycle = new_Set (flat (map lifecycle_or_empty allTools))
      in \<lparr>opt_tags = Array_from uniqueTags, opt_lifecycles = Array_from uniqueLifecycle\<rparr>)"

text \<open>\<^verbatim>\<open>(await exploreApi.getTools(request))?.tools\<close>, once the promise has resolved.\<close>

definition tools_of :: "GetExploreToolsResponse option \<Rightarrow> ExploreTool list option" where
  "tools_of resp = (case resp of None \<Rightarrow> None | Some r \<Rightarrow> tools r)"

text \<open>
  The body of an async function is modelled by the list of requests it sends to the
  client and the way its promise settles. An \<^verbatim>\<open>await\<close> of a rejected promise throws, so
  the body's promise is rejected with the same error.
\<close>

definition fetchTagsAndLifeCycles ::
  "explore_api \<Rightarrow> GetExploreToolsRequest option list \<times> tag_options promise" where
  "fetchTagsAndLifeCycles exploreApi =
     ([None],
      case exploreApi None of
        Rejected e \<Rightarrow> Rejected e
      | Fulfilled resp \<Rightarrow>
          (case tools_of resp of
             None \<Rightarrow> Fulfilled \<lparr>opt_tags = [], opt_lifecycles = []\<rparr>
           | Some allTools \<Rightarrow> Fulfilled (uniqueOptions allTools)))"

subsection \<open>The filtered list (\<^verbatim>\<open>fetchTools\<close>)\<close>

text \<open>The argument of line 96: \<^verbatim>\<open>{ filter: { tags: ..., lifecycle: ... } }\<close>.\<close>

definition filter_request :: "string list \<Rightarrow> string list \<Rightarrow> GetExploreToolsRequest option" where
  "filter_request ts ls =
     Some \<lparr>req_filter = Some \<lparr>filter_tags = Some ts, filter_lifecycle = Some ls\<rparr>\<rparr>"

definition fetchTools ::
  "explore_api \<Rightarrow> string list \<Rightarrow> string list \<Rightarrow>
     GetExploreToolsRequest option list \<times> ExploreTool list option promise" where
  "fetchTools exploreApi filteredTags filteredLifecycle =
     (let request = filter_request filteredTags filteredLifecycle
      in ([request],
          case exploreApi request of
            Rejected e \<Rightarrow> Rejected e
          | Fulfilled resp \<Rightarrow> Fulfilled (tools_of resp)))"

text \<open>
  The spec's words for the de-duplication, independent of the code: an occurrence is kept
  exactly when the same value has not occurred at an earlier position, and the kept
  occurrences stay in the order of the input.
\<close>

definition first_seen :: "'a list \<Rightarrow> 'a list" where
  "first_seen xs =
     map (\<lambda>i. xs ! i) (filter (\<lambda>i. xs ! i \<notin> set (take i xs)) [0..<length xs])"

text \<open>The flattened tag sequences and the lifecycle values of the tools that have one.\<close>

definition all_tags :: "ExploreTool list \<Rightarrow> string list" where
  "all_tags ts = concat (map (\<lambda>t. case tags t of None \<Rightarrow> [] | Some xs \<Rightarrow> xs) ts)"

definition all_lifecycles :: "ExploreTool list \<Rightarrow> string list" where
  "all_lifecycles ts = concat (map (\<lambda>t. case lifecycle t of None \<Rightarrow> [] | Some l \<Rightarrow> [l]) ts)"

subsection \<open>The URL query and the history (\<^verbatim>\<open>useSearchParams\<close>)\<close>

text \<open>
  \<^verbatim>\<open>useSearchParams\<close> comes from the library react-router-dom, which is not part of the
  repository; the definitions of this subsection follow that library. A
  \<^verbatim>\<open>URLSearchParams\<close> object is the list of its (key, value) pairs in order; writing the
  pairs into the URL and parsing them back at the next render is taken to be the
  identity on that list. \<^verbatim>\<open>getAll(name)\<close> returns the values of the pairs with that key,
  in order, and the empty array when there is none.
\<close>

type_synonym URLSearchParams = "(string \<times> string) list"

definition getAll :: "URLSearchParams \<Rightarrow> string \<Rightarrow> string list" where
  "getAll params name = map snd (List.filter (\<lambda>kv. fst kv = name) params)"

text \<open>
  \<^verbatim>\<open>createSearchParams(init)\<close> for an object \<^verbatim>\<open>init\<close> whose values are arrays: the
  keys in order, each with one pair per element of its array. The object is the list of
  its properties.
\<close>

definition createSearchParams :: "(string \<times> string list) list \<Rightarrow> URLSearchParams" where
  "createSearchParams init = concat (map (\<lambda>(key, vs). map (\<lambda>v. (key, v)) vs) init)"

text \<open>
  The browser's session history: the entries behind the current one (nearest first), the
  current entry and the entries ahead of it. \<^verbatim>\<open>navigate\<close> with \<^verbatim>\<open>replace: true\<close>
  overwrites the current entry; without it a new entry is pushed and the entries ahead
  are dropped.
\<close>

record location =
  pathname :: string
  search :: URLSearchParams

record history =
  back_entries :: "location list"
  current :: location
  forward_entries :: "location list"

definition navigate :: "URLSearchParams \<Rightarrow> bool \<Rightarrow> history \<Rightarrow> history" where
  "navigate params replace h =
     (let target = (current h)\<lparr>search := params\<rparr>
      in if replace then h\<lparr>current := target\<rparr>
         else \<lparr>back_entries = current h # back_entries h, current = target,
               forward_entries = []\<rparr>)"

text \<open>
  \<^verbatim>\<open>setSearchParams(nextInit, navigateOptions)\<close> called with an object: the library
  navigates to the query built from \<^verbatim>\<open>nextInit\<close> alone.
\<close>

definition setSearchParams :: "(string \<times> string list) list \<Rightarrow> bool \<Rightarrow> history \<Rightarrow> history" where
  "setSearchParams nextInit replace h = navigate (createSearchParams nextInit) replace h"

subsection \<open>The loader hook (\<^verbatim>\<open>useAsyncFn\<close>)\<close>

text \<open>
  \<^verbatim>\<open>useAsyncFn\<close> comes from the library react-use, which is not part of the repository;
  the definitions of this subsection follow that library's implementation:
  \<^verbatim>\<open>
  const callback = useCallback((...args) => {
    const callId = ++lastCallId.current;
    if (!state.loading) {
      set(prevState => ({ ...prevState, loading: true }));
    }
    return fn(...args).then(
      value => {
        isMounted() && callId === lastCallId.current && set({ value, loading: false });
        return value;
      },
      error => {
        isMounted() && callId === lastCallId.current && set({ error, loading: false });
        return error;
      },
    );
  }, deps);
  \<close>
  with the initial state \<^verbatim>\<open>{ loading: false }\<close>. A field that an object literal leaves out
  is \<^verbatim>\<open>undefined\<close>, here \<open>None\<close>.
\<close>

record 'a AsyncState =
  loading :: bool
  error :: "js_error option"
  val :: "'a option"

record 'a useAsyncFn =
  state :: "'a AsyncState"
  lastCallId :: nat

definition initialHook :: "'a useAsyncFn" where
  "initialHook = \<lparr>state = \<lparr>loading = False, error = None, val = None\<rparr>, lastCallId = 0\<rparr>"

text \<open>
  Calling the callback: \<open>closure_loading\<close> is \<^verbatim>\<open>state.loading\<close> as the callback's
  closure holds it. The result is the call's id and the hook afterwards.
\<close>

definition hook_call :: "bool \<Rightarrow> 'a useAsyncFn \<Rightarrow> nat \<times> 'a useAsyncFn" where
  "hook_call closure_loading h =
     (let callId = lastCallId h + 1;
          h1 = h\<lparr>lastCallId := callId\<rparr>
      in (callId,
          if \<not> closure_loading then h1\<lparr>state := (state h1)\<lparr>loading := True\<rparr>\<rparr> else h1))"

text \<open>
  The two handlers of \<^verbatim>\<open>then\<close>, run when the promise of the wrapped function settles.
  The value the function resolved with may itself be \<^verbatim>\<open>undefined\<close>.
\<close>

definition hook_settle ::
  "bool \<Rightarrow> nat \<Rightarrow> 'a option promise \<Rightarrow> 'a useAsyncFn \<Rightarrow> 'a useAsyncFn" where
  "hook_settle isMounted callId outcome h =
     (if isMounted \<and> callId = lastCallId h then
        (case outcome of
           Fulfilled v \<Rightarrow> h\<lparr>state := \<lparr>loading = False, error = None, val = v\<rparr>\<rparr>
         | Rejected e \<Rightarrow> h\<lparr>state := \<lparr>loading = False, error = Some e, val = None\<rparr>\<rparr>)
      else h)"

text \<open>
  The promise the callback returns to its caller: both handlers return normally, so it is
  fulfilled, with the value or with the error object.
\<close>

definition callback_promise :: "'a promise \<Rightarrow> (js_error + 'a) promise" where
  "callback_promise outcome =
     (case outcome of Fulfilled v \<Rightarrow> Fulfilled (Inr v) | Rejected e \<Rightarrow> Fulfilled (Inl e))"

subsection \<open>The component\<close>

datatype object_fit = cover | contain

record props =
  p_title :: "string option"
  objectFit :: "object_fit option"
  showTagsFilter :: "bool option"
  showLifecycleFilter :: "bool option"

record view_state =
  filteredTags :: "string list"
  filteredLifecycle :: "string list"
  browser :: history
  toolsState :: "ExploreTool list useAsyncFn"
  uniqueTagsAndLifecycle :: "tag_options useAsyncFn"
  mounted :: bool

text \<open>The two \<^verbatim>\<open>useState\<close> initialisers (lines 76 to 81): the only reads of the URL.\<close>

definition initialize :: "URLSearchParams \<Rightarrow> string list \<times> string list" where
  "initialize searchParams = (getAll searchParams ''tags'', getAll searchParams ''lifecycle'')"

definition first_render :: "history \<Rightarrow> view_state" where
  "first_render h =
     \<lparr>filteredTags = fst (initialize (search (current h))),
      filteredLifecycle = snd (initialize (search (current h))),
      browser = h,
      toolsState = initialHook,
      uniqueTagsAndLifecycle = initialHook,
      mounted = True\<rparr>"

definition handleTagsChange :: "string list \<Rightarrow> view_state \<Rightarrow> view_state" where
  "handleTagsChange v st =
     st\<lparr>filteredTags := v,
        browser := setSearchParams [(''tags'', v)] True (browser st)\<rparr>"

definition handleLifecycleChange :: "string list \<Rightarrow> view_state \<Rightarrow> view_state" where
  "handleLifecycleChange v st =
     st\<lparr>filteredLifecycle := v,
        browser := setSearchParams [(''lifecycle'', v)] True (browser st)\<rparr>"

text \<open>
  The effect of lines 122 to 125 calls the two callbacks. The closure of
  \<^verbatim>\<open>fetchTools\<close> is renewed whenever the selections change, which is when the effect
  runs, so it holds the current \<^verbatim>\<open>tools.loading\<close>; the closure of
  \<^verbatim>\<open>fetchTagsAndLifeCycles\<close> depends on \<^verbatim>\<open>exploreApi\<close> only and holds the initial
  \<^verbatim>\<open>loading: false\<close>. The result carries the ids of the two calls.
\<close>

definition run_effect :: "view_state \<Rightarrow> (nat \<times> nat) \<times> view_state" where
  "run_effect st =
     (let (toolsId, t) = hook_call (loading (state (toolsState st))) (toolsState st);
          (optionsId, u) = hook_call False (uniqueTagsAndLifecycle st)
      in ((toolsId, optionsId), st\<lparr>toolsState := t, uniqueTagsAndLifecycle := u\<rparr>))"

definition tools_settled :: "nat \<Rightarrow> ExploreTool list option promise \<Rightarrow> view_state \<Rightarrow> view_state" where
  "tools_settled callId outcome st =
     st\<lparr>toolsState := hook_settle (mounted st) callId outcome (toolsState st)\<rparr>"

definition options_settled :: "nat \<Rightarrow> tag_options promise \<Rightarrow> view_state \<Rightarrow> view_state" where
  "options_settled callId outcome st =
     st\<lparr>uniqueTagsAndLifecycle :=
          hook_settle (mounted st) callId
            (case outcome of Fulfilled v \<Rightarrow> Fulfilled (Some v) | Rejected e \<Rightarrow> Rejected e)
            (uniqueTagsAndLifecycle st)\<rparr>"

text \<open>
  One round of loading against a client: the effect runs and both promises settle before
  the selections change again. The requests sent are returned with the new state.
\<close>

definition refresh ::
  "explore_api \<Rightarrow> view_state \<Rightarrow> GetExploreToolsRequest option list \<times> view_state" where
  "refresh exploreApi st =
     (let ((toolsId, optionsId), st1) = run_effect st;
          (reqs1, toolsOutcome) = fetchTools exploreApi (filteredTags st) (filteredLifecycle st);
          (reqs2, optionsOutcome) = fetchTagsAndLifeCycles exploreApi
      in (reqs1 @ reqs2,
          options_settled optionsId optionsOutcome (tools_settled toolsId toolsOutcome st1)))"

subsection \<open>What is rendered\<close>

datatype element =
    ContentHeader string
  | Autocomplete string "string list"
  | Progress
  | WarningPanel string
  | ItemCardGrid "(ExploreTool \<times> object_fit option) list"

text \<open>\<^verbatim>\<open>Body\<close>: one card per tool, in order.\<close>

definition Body :: "ExploreTool list \<Rightarrow> object_fit option \<Rightarrow> element" where
  "Body ts fit = ItemCardGrid (map (\<lambda>tool. (tool, fit)) ts)"

text \<open>\<^verbatim>\<open>uniqueTagsAndLifecycle.value?.tags ?? []\<close> and the same for the lifecycles.\<close>

definition tag_choices :: "view_state \<Rightarrow> string list" where
  "tag_choices st =
     (case val (state (uniqueTagsAndLifecycle st)) of None \<Rightarrow> [] | Some v \<Rightarrow> opt_tags v)"

definition lifecycle_choices :: "view_state \<Rightarrow> string list" where
  "lifecycle_choices st =
     (case val (state (uniqueTagsAndLifecycle st)) of None \<Rightarrow> [] | Some v \<Rightarrow> opt_lifecycles v)"

text \<open>The filter widgets (lines 133 to 170).\<close>

definition filter_elements :: "props \<Rightarrow> view_state \<Rightarrow> element list" where
  "filter_elements p st =
     (let showTags = (case showTagsFilter p of None \<Rightarrow> False | Some b \<Rightarrow> b);
          showLifecycle = (case showLifecycleFilter p of None \<Rightarrow> False | Some b \<Rightarrow> b);
          showFilters = (showTags \<or> showLifecycle)
      in if showFilters then
           (if showTags then [Autocomplete ''tags-filter'' (tag_choices st)] else []) @
           (if showLifecycle then [Autocomplete ''lifecycle-filter'' (lifecycle_choices st)]
            else [])
         else [])"

text \<open>
  The last grid item (lines 171 to 182). An array is truthy in JavaScript also when it is
  empty, so \<^verbatim>\<open>tools.value && ...\<close> tests only whether the value is defined.
\<close>

definition status_elements :: "props \<Rightarrow> view_state \<Rightarrow> element list" where
  "status_elements p st =
     (let tools = state (toolsState st);
          uniq = state (uniqueTagsAndLifecycle st)
      in (if loading tools \<or> loading uniq then [Progress] else []) @
         (if error tools \<noteq> None \<or> error uniq \<noteq> None
          then [WarningPanel ''Failed to load tools''] else []) @
         (case val tools of
            None \<Rightarrow> []
          | Some v \<Rightarrow> if length v = 0 then [WarningPanel ''No tools found''] else []) @
         (case val tools of
            None \<Rightarrow> []
          | Some v \<Rightarrow> [Body v (objectFit p)]))"

definition render :: "props \<Rightarrow> view_state \<Rightarrow> element list" where
  "render p st =
     ContentHeader (case p_title p of None \<Rightarrow> ''Tools'' | Some t \<Rightarrow> t)
       # filter_elements p st @ status_elements p st"

fun is_grid :: "element \<Rightarrow> bool" where
  "is_grid (ItemCardGrid cards) = True"
| "is_grid _ = False"

definition shows_failure :: "element list \<Rightarrow> bool" where
  "shows_failure els = (WarningPanel ''Failed to load tools'' \<in> set els)"

definition shows_no_tools :: "element list \<Rightarrow> bool" where
  "shows_no_tools els = (WarningPanel ''No tools found'' \<in> set els)"

definition shows_grid :: "element list \<Rightarrow> bool" where
  "shows_grid els = list_ex is_grid els"

subsection \<open>The fixtures of the component's tests\<close>

definition defaultTools :: "ExploreTool list" where
  "defaultTools =
     [\<lparr>title = ''Lighthouse'',
       description = ''Google's Lighthouse tool is a great resource for benchmarking and improving the accessibility, performance, SEO, and best practices of your website.'',
       url = ''/lighthouse'',
       image = Some ''https://raw.githubusercontent.com/GoogleChrome/lighthouse/8b3d7f052b2e64dd857e741d7395647f487697e7/assets/lighthouse-logo.png'',
       tags = Some [''web'', ''seo'', ''accessibility'', ''performance''],
       lifecycle = None\<rparr>,
      \<lparr>title = ''Tech Radar'',
       description = ''Tech Radar is a list of technologies, complemented by an assessment result, called ring assignment.'',
       url = ''/tech-radar'',
       image = Some ''https://storage.googleapis.com/wf-blogs-engineering-media/2018/09/fe13bb32-wf-tech-radar-hero-1024x597.png'',
       tags = Some [''standards'', ''landscape''],
       lifecycle = Some ''experimental''\<rparr>]"

text \<open>
  \<^verbatim>\<open>defaultTagFilterFunction\<close>: with a non-empty tag filter, the tools that carry one of
  the tags; otherwise all of them.
\<close>

definition defaultTagFilterFunction :: explore_api where
  "defaultTagFilterFunction request =
     (case request of
        None \<Rightarrow> Fulfilled (Some \<lparr>tools = Some defaultTools\<rparr>)
      | Some r \<Rightarrow>
          (case req_filter r of
             None \<Rightarrow> Fulfilled (Some \<lparr>tools = Some defaultTools\<rparr>)
           | Some f \<Rightarrow>
               (case filter_tags f of
                  None \<Rightarrow> Fulfilled (Some \<lparr>tools = Some defaultTools\<rparr>)
                | Some ts \<Rightarrow>
                    if length ts > 0 then
                      Fulfilled (Some \<lparr>tools = Some (List.filter
                        (\<lambda>tool. case tags tool of
                                   None \<Rightarrow> False
                                 | Some tool_tags \<Rightarrow> list_ex (\<lambda>tag. tag \<in> set ts) tool_tags)
                        defaultTools)\<rparr>)
                    else Fulfilled (Some \<lparr>tools = Some defaultTools\<rparr>))))"

text \<open>
  \<^verbatim>\<open>mockResolvedValue({ tools: [] })\<close>, the mock left without an implementation (its
  call returns \<^verbatim>\<open>undefined\<close>, which \<^verbatim>\<open>await\<close> passes on), and a client whose every
  call is rejected.
\<close>

definition emptyCatalog :: explore_api where
  "emptyCatalog request = Fulfilled (Some \<lparr>tools = Some []\<rparr>)"

definition bareMock :: explore_api where
  "bareMock request = Fulfilled None"

definition rejectingApi :: explore_api where
  "rejectingApi request = Rejected (Error ''Service Unavailable'')"


text \<open>
  A history whose current URL is \<^verbatim>\<open>/explore/tools?lifecycle=experimental\<close>, the component
  rendered without props, and the view once the test catalog has been loaded from there.
\<close>

definition seeded_history :: history where
  "seeded_history =
     \<lparr>back_entries = [],
      current = \<lparr>pathname = ''/explore/tools'',
                 search = [(''lifecycle'', ''experimental'')]\<rparr>,
      forward_entries = []\<rparr>"

definition defaultProps :: props where
  "defaultProps =
     \<lparr>p_title = None, objectFit = None, showTagsFilter = None, showLifecycleFilter = None\<rparr>"

definition loaded_view :: view_state where
  "loaded_view = snd (refresh defaultTagFilterFunction (first_render seeded_history))"

section \<open>Properties\<close>

subsection \<open>Sets in insertion order\<close>

lemma new_Set_snoc: "new_Set (xs @ [x]) = Set_add (new_Set xs) x"
  by (simp add: new_Set_def)

lemma set_new_Set: "set (new_Set xs) = set xs"
  by (induction xs rule: rev_induct) (auto simp: new_Set_snoc Set_add_def new_Set_def)

lemma distinct_new_Set: "distinct (new_Set xs)"
  by (induction xs rule: rev_induct) (auto simp: new_Set_snoc Set_add_def new_Set_def)

lemma first_seen_snoc:
  "first_seen (xs @ [x]) = first_seen xs @ (if x \<in> set xs then [] else [x])"
proof -
  let ?ys = "xs @ [x]"
  let ?new = "\<lambda>i. ?ys ! i \<notin> set (take i ?ys)"
  have keep: "filter ?new [0..<length xs]
      = filter (\<lambda>i. xs ! i \<notin> set (take i xs)) [0..<length xs]"
    by (rule filter_cong) (auto simp: nth_append)
  have nth: "map (\<lambda>i. ?ys ! i) (filter (\<lambda>i. xs ! i \<notin> set (take i xs)) [0..<length xs])
      = map (\<lambda>i. xs ! i) (filter (\<lambda>i. xs ! i \<notin> set (take i xs)) [0..<length xs])"
    by (rule map_cong) (auto simp: nth_append)
  have old: "map (\<lambda>i. ?ys ! i) (filter ?new [0..<length xs]) = first_seen xs"
    by (simp only: keep nth first_seen_def)
  have last: "map (\<lambda>i. ?ys ! i) (filter ?new [length xs])
      = (if x \<in> set xs then [] else [x])"
    by simp
  have "first_seen ?ys
      = map (\<lambda>i. ?ys ! i) (filter ?new ([0..<length xs] @ [length xs]))"
    by (simp only: first_seen_def length_append_singleton upt_Suc_append le0)
  also have "\<dots> = map (\<lambda>i. ?ys ! i) (filter ?new [0..<length xs])
      @ map (\<lambda>i. ?ys ! i) (filter ?new [length xs])"
    by (simp only: filter_append map_append)
  finally show ?thesis
    by (simp only: old last)
qed

lemma new_Set_first_seen: "new_Set xs = first_seen xs"
proof (induction xs rule: rev_induct)
  case Nil
  show ?case by (simp add: new_Set_def first_seen_def)
next
  case (snoc x xs)
  have "set (first_seen xs) = set xs"
    using snoc set_new_Set [of xs] by simp
  then show ?case
    by (simp add: new_Set_snoc first_seen_snoc Set_add_def snoc)
qed

lemma flat_tags: "flat (map tags_or_empty ts) = all_tags ts"
  by (induction ts) (auto simp: flat_def all_tags_def tags_or_empty_def split: option.splits)

lemma flat_lifecycles: "flat (map lifecycle_or_empty ts) = all_lifecycles ts"
  by (induction ts)
     (auto simp: flat_def all_lifecycles_def lifecycle_or_empty_def split: option.splits)

text \<open>
  C3. For every tool list the catalog returns, the computed tag options are the
  flattening of the tools' tag sequences with every value kept at its first occurrence
  only, in the order of the list; the lifecycle options are the lifecycle values of the
  tools that have one, reduced by the same rule; neither sequence has a duplicate.
\<close>

theorem computeOptions_first_seen_distinct:
  "uniqueOptions allTools =
     \<lparr>opt_tags = first_seen (all_tags allTools),
      opt_lifecycles = first_seen (all_lifecycles allTools)\<rparr>
   \<and> distinct (opt_tags (uniqueOptions allTools))
   \<and> distinct (opt_lifecycles (uniqueOptions allTools))
   \<and> set (opt_tags (uniqueOptions allTools)) = set (all_tags allTools)
   \<and> set (opt_lifecycles (uniqueOptions allTools)) = set (all_lifecycles allTools)
   \<and> snd (fetchTagsAndLifeCycles (\<lambda>req. Fulfilled (Some \<lparr>tools = Some allTools\<rparr>)))
       = Fulfilled (uniqueOptions allTools)"
  by (simp add: uniqueOptions_def Array_from_def flat_tags flat_lifecycles
      new_Set_first_seen [symmetric] distinct_new_Set set_new_Set
      fetchTagsAndLifeCycles_def tools_of_def)

subsection \<open>The URL query\<close>

lemma getAll_single_key: "getAll (map (Pair key) vs) k = (if k = key then vs else [])"
  by (induction vs) (auto simp: getAll_def)

lemma createSearchParams_single: "createSearchParams [(key, vs)] = map (Pair key) vs"
  by (simp add: createSearchParams_def)

lemma getAll_empty_iff: "getAll q k = [] \<longleftrightarrow> k \<notin> fst ` set q"
  by (induction q) (auto simp: getAll_def)

text \<open>
  C1, as stated, fails: with \<^verbatim>\<open>?lifecycle=experimental\<close> in the URL, choosing the tag
  \<^verbatim>\<open>web\<close> leaves a URL whose \<^verbatim>\<open>lifecycle\<close> key is gone.
\<close>

theorem setTags_keeps_lifecycle_counterexample:
  "getAll (search (current (browser (handleTagsChange [''web''] (first_render seeded_history)))))
       ''lifecycle''
     \<noteq> getAll (search (current (browser (first_render seeded_history)))) ''lifecycle''"
  by (simp add: handleTagsChange_def first_render_def seeded_history_def setSearchParams_def
      navigate_def createSearchParams_def getAll_def)

text \<open>
  C1, amended. For every view state and every sequence \<open>v\<close>, \<^verbatim>\<open>handleTagsChange\<close> sets the
  selected tags to \<open>v\<close>, keeps the selected lifecycles in memory, and replaces the
  current history entry (same path, same entries behind and ahead) by one whose query
  consists of the \<^verbatim>\<open>tags\<close> pairs for \<open>v\<close> and nothing else: reading \<^verbatim>\<open>tags\<close> gives \<open>v\<close>
  (nothing when \<open>v\<close> is empty) and reading any other key gives nothing.
  \<^verbatim>\<open>handleLifecycleChange\<close> does the same with the \<^verbatim>\<open>lifecycle\<close> key.
\<close>

theorem handlers_rewrite_whole_query:
  "filteredTags (handleTagsChange v st) = v
   \<and> filteredLifecycle (handleTagsChange v st) = filteredLifecycle st
   \<and> search (current (browser (handleTagsChange v st))) = map (Pair ''tags'') v
   \<and> getAll (search (current (browser (handleTagsChange v st)))) k
        = (if k = ''tags'' then v else [])
   \<and> pathname (current (browser (handleTagsChange v st))) = pathname (current (browser st))
   \<and> back_entries (browser (handleTagsChange v st)) = back_entries (browser st)
   \<and> forward_entries (browser (handleTagsChange v st)) = forward_entries (browser st)
   \<and> filteredLifecycle (handleLifecycleChange v st) = v
   \<and> filteredTags (handleLifecycleChange v st) = filteredTags st
   \<and> search (current (browser (handleLifecycleChange v st))) = map (Pair ''lifecycle'') v
   \<and> getAll (search (current (browser (handleLifecycleChange v st)))) k
        = (if k = ''lifecycle'' then v else [])
   \<and> pathname (current (browser (handleLifecycleChange v st))) = pathname (current (browser st))
   \<and> back_entries (browser (handleLifecycleChange v st)) = back_entries (browser st)
   \<and> forward_entries (browser (handleLifecycleChange v st)) = forward_entries (browser st)"
  by (simp add: handleTagsChange_def handleLifecycleChange_def setSearchParams_def
      navigate_def getAll_single_key createSearchParams_single)

text \<open>
  C2. For every URL query, \<^verbatim>\<open>initialize\<close> returns the values stored under \<^verbatim>\<open>tags\<close> and
  under \<^verbatim>\<open>lifecycle\<close>, a key yields the empty sequence exactly when the query has no
  pair with it, and the first render takes its selections from there. For every sequence
  \<open>x\<close>, the empty one included, reading the URL after \<^verbatim>\<open>handleTagsChange x\<close> and
  initialising again gives the selected tags \<open>x\<close>.
\<close>

theorem initialize_round_trip:
  "initialize q = (getAll q ''tags'', getAll q ''lifecycle'')
   \<and> (getAll q k = [] \<longleftrightarrow> k \<notin> fst ` set q)
   \<and> initialize [] = ([], [])
   \<and> filteredTags (first_render h) = getAll (search (current h)) ''tags''
   \<and> filteredLifecycle (first_render h) = getAll (search (current h)) ''lifecycle''
   \<and> fst (initialize (search (current (browser (handleTagsChange x st))))) = x
   \<and> filteredTags (first_render (browser (handleTagsChange x st))) = x"
  by (simp add: initialize_def first_render_def getAll_empty_iff handleTagsChange_def
      setSearchParams_def navigate_def getAll_single_key createSearchParams_single)

subsection \<open>One round of loading\<close>

lemma refresh_requests:
  "fst (refresh api st) = [filter_request (filteredTags st) (filteredLifecycle st), None]"
  by (simp add: refresh_def run_effect_def hook_call_def fetchTools_def
      fetchTagsAndLifeCycles_def Let_def split: prod.splits)

lemma refresh_tools:
  "mounted st \<Longrightarrow>
   state (toolsState (snd (refresh api st))) =
     (case snd (fetchTools api (filteredTags st) (filteredLifecycle st)) of
        Fulfilled v \<Rightarrow> \<lparr>loading = False, error = None, val = v\<rparr>
      | Rejected e \<Rightarrow> \<lparr>loading = False, error = Some e, val = None\<rparr>)"
  by (simp add: refresh_def run_effect_def hook_call_def tools_settled_def
      options_settled_def hook_settle_def Let_def split: prod.splits promise.splits)

lemma refresh_options:
  "mounted st \<Longrightarrow>
   state (uniqueTagsAndLifecycle (snd (refresh api st))) =
     (case snd (fetchTagsAndLifeCycles api) of
        Fulfilled v \<Rightarrow> \<lparr>loading = False, error = None, val = Some v\<rparr>
      | Rejected e \<Rightarrow> \<lparr>loading = False, error = Some e, val = None\<rparr>)"
  by (simp add: refresh_def run_effect_def hook_call_def tools_settled_def
      options_settled_def hook_settle_def Let_def split: prod.splits promise.splits)

lemma mounted_refresh: "mounted (snd (refresh api st)) = mounted st"
  by (simp add: refresh_def run_effect_def hook_call_def tools_settled_def
      options_settled_def Let_def split: prod.splits)

lemma mounted_loaded_view: "mounted loaded_view"
  by (simp add: loaded_view_def mounted_refresh first_render_def)

lemma tag_choices_loaded_view:
  "tag_choices loaded_view =
     [''web'', ''seo'', ''accessibility'', ''performance'', ''standards'', ''landscape'']"
  by (simp add: tag_choices_def loaded_view_def refresh_options first_render_def
      fetchTagsAndLifeCycles_def defaultTagFilterFunction_def tools_of_def uniqueOptions_def
      defaultTools_def flat_def tags_or_empty_def new_Set_def Set_add_def Array_from_def)

subsection \<open>What the view shows\<close>

lemma shows_failure_render:
  "shows_failure (render p st) \<longleftrightarrow>
     error (state (toolsState st)) \<noteq> None \<or> error (state (uniqueTagsAndLifecycle st)) \<noteq> None"
  by (auto simp: shows_failure_def render_def filter_elements_def status_elements_def
      Body_def Let_def split: option.splits if_splits)

lemma shows_no_tools_render:
  "shows_no_tools (render p st) \<longleftrightarrow> val (state (toolsState st)) = Some []"
  by (auto simp: shows_no_tools_def render_def filter_elements_def status_elements_def
      Body_def Let_def split: option.splits if_splits)

lemma grids_render:
  "List.filter is_grid (render p st) =
     (case val (state (toolsState st)) of None \<Rightarrow> [] | Some v \<Rightarrow> [Body v (objectFit p)])"
  by (auto simp: render_def filter_elements_def status_elements_def
      Body_def Let_def split: option.splits if_splits)

lemma shows_grid_render:
  "shows_grid (render p st) \<longleftrightarrow> val (state (toolsState st)) \<noteq> None"
  by (auto simp: shows_grid_def render_def filter_elements_def status_elements_def
      Body_def Let_def split: option.splits if_splits)

subsection \<open>The derived options\<close>

text \<open>
  C4. Whatever the selections of the view, \<^verbatim>\<open>fetchTagsAndLifeCycles\<close> sends one request,
  without argument; in a round of loading the filtered request carries the selections
  and the options request carries nothing; and the result depends on the client only
  through its answer to the call without argument.
\<close>

theorem computeOptions_unfiltered_request:
  "fst (fetchTagsAndLifeCycles exploreApi) = [None]
   \<and> fst (refresh exploreApi st)
       = [filter_request (filteredTags st) (filteredLifecycle st), None]
   \<and> fetchTagsAndLifeCycles exploreApi
       = fetchTagsAndLifeCycles (\<lambda>request. exploreApi None)"
  by (simp add: refresh_requests) (simp add: fetchTagsAndLifeCycles_def)

text \<open>
  C5, as stated, fails: once the test catalog has been loaded, six tag options are
  offered; after a round in which the client rejects, none is.
\<close>

theorem options_after_failure_counterexample:
  "tag_choices (snd (refresh rejectingApi loaded_view)) \<noteq> tag_choices loaded_view"
  by (simp add: tag_choices_loaded_view)
     (simp add: tag_choices_def refresh_options mounted_loaded_view
      fetchTagsAndLifeCycles_def rejectingApi_def)

text \<open>
  C5, amended. If the unfiltered fetch is rejected with \<open>e\<close>, the promise that the
  loader's callback returns is fulfilled (with \<open>e\<close> as its value), so nothing is thrown
  at the caller; the loader's state becomes the failure state carrying \<open>e\<close>, the failure
  warning is rendered, and the options offered are empty, whatever was offered before.
  The previous options stay on offer only while the fetch is pending.
\<close>

theorem options_failure_state:
  assumes "exploreApi None = Rejected e" and "mounted st"
  shows "callback_promise (snd (fetchTagsAndLifeCycles exploreApi)) = Fulfilled (Inl e)
    \<and> state (uniqueTagsAndLifecycle (snd (refresh exploreApi st)))
        = \<lparr>loading = False, error = Some e, val = None\<rparr>
    \<and> shows_failure (render p (snd (refresh exploreApi st)))
    \<and> tag_choices (snd (refresh exploreApi st)) = []
    \<and> lifecycle_choices (snd (refresh exploreApi st)) = []
    \<and> tag_choices (snd (run_effect st)) = tag_choices st
    \<and> lifecycle_choices (snd (run_effect st)) = lifecycle_choices st"
proof -
  have out: "snd (fetchTagsAndLifeCycles exploreApi) = Rejected e"
    using assms(1) by (simp add: fetchTagsAndLifeCycles_def)
  have st: "state (uniqueTagsAndLifecycle (snd (refresh exploreApi st)))
      = \<lparr>loading = False, error = Some e, val = None\<rparr>"
    using assms(2) by (simp add: refresh_options out)
  have pending: "val (state (uniqueTagsAndLifecycle (snd (run_effect st))))
      = val (state (uniqueTagsAndLifecycle st))"
    by (simp add: run_effect_def hook_call_def Let_def split: prod.splits)
  show ?thesis
    by (simp add: out callback_promise_def st shows_failure_render tag_choices_def
        lifecycle_choices_def pending)
qed

theorem options_failure_state_witness:
  "rejectingApi None = Rejected (Error ''Service Unavailable'') \<and> mounted loaded_view
   \<and> error (state (uniqueTagsAndLifecycle (snd (refresh rejectingApi loaded_view))))
       = Some (Error ''Service Unavailable'')
   \<and> tag_choices (snd (refresh rejectingApi loaded_view)) = []"
  using options_failure_state
    [of rejectingApi "Error ''Service Unavailable''" loaded_view defaultProps]
  by (simp add: rejectingApi_def mounted_loaded_view)

text \<open>
  C9. If the call without argument resolves with a response that is nullish or has no
  \<^verbatim>\<open>tools\<close> field, \<^verbatim>\<open>fetchTagsAndLifeCycles\<close> resolves with empty tags and empty
  lifecycles, and on a mounted view the loader ends in the success state (no error)
  holding these empty options.
\<close>

theorem nullish_response_options:
  assumes "exploreApi None = Fulfilled resp" and "tools_of resp = None" and "mounted st"
  shows "snd (fetchTagsAndLifeCycles exploreApi)
           = Fulfilled \<lparr>opt_tags = [], opt_lifecycles = []\<rparr>
    \<and> state (uniqueTagsAndLifecycle (snd (refresh exploreApi st)))
        = \<lparr>loading = False, error = None,
           val = Some \<lparr>opt_tags = [], opt_lifecycles = []\<rparr>\<rparr>
    \<and> tag_choices (snd (refresh exploreApi st)) = []
    \<and> lifecycle_choices (snd (refresh exploreApi st)) = []
    \<and> tools_of None = None
    \<and> tools_of (Some \<lparr>tools = None\<rparr>) = None"
proof -
  have out: "snd (fetchTagsAndLifeCycles exploreApi)
      = Fulfilled \<lparr>opt_tags = [], opt_lifecycles = []\<rparr>"
    using assms(1,2) by (simp add: fetchTagsAndLifeCycles_def)
  show ?thesis
    using assms(3)
    by (simp add: out refresh_options tag_choices_def lifecycle_choices_def tools_of_def)
qed

theorem nullish_response_options_witness:
  "bareMock None = Fulfilled None \<and> tools_of None = None \<and> mounted loaded_view
   \<and> error (state (uniqueTagsAndLifecycle (snd (refresh bareMock loaded_view)))) = None
   \<and> val (state (uniqueTagsAndLifecycle (snd (refresh bareMock loaded_view))))
       = Some \<lparr>opt_tags = [], opt_lifecycles = []\<rparr>"
  using nullish_response_options [where exploreApi = bareMock and resp = None
      and st = loaded_view]
  by (simp add: bareMock_def mounted_loaded_view tools_of_def)

subsection \<open>The filtered list\<close>

text \<open>
  C6. \<^verbatim>\<open>fetchTools\<close> sends the client one request, and it always carries a filter object
  holding the current selections (in a round of loading: the selections of the view);
  what \<^verbatim>\<open>fetchTools\<close> returns is the tool list of the client's answer to that very
  request. If the client answers the filter with two empty sets as it answers a call
  without argument, then \<^verbatim>\<open>fetchTools\<close> with both selections empty settles as the tool
  list of the call without argument does.
\<close>

theorem loadTools_filter_object:
  assumes "exploreApi (filter_request [] []) = exploreApi None"
  shows "fst (fetchTools exploreApi selectedTags selectedLifecycle)
           = [filter_request selectedTags selectedLifecycle]
    \<and> filter_request selectedTags selectedLifecycle
         = Some \<lparr>req_filter = Some \<lparr>filter_tags = Some selectedTags,
                                    filter_lifecycle = Some selectedLifecycle\<rparr>\<rparr>
    \<and> hd (fst (refresh exploreApi st))
         = filter_request (filteredTags st) (filteredLifecycle st)
    \<and> snd (fetchTools exploreApi selectedTags selectedLifecycle)
         = (case exploreApi (filter_request selectedTags selectedLifecycle) of
              Rejected e \<Rightarrow> Rejected e
            | Fulfilled resp \<Rightarrow> Fulfilled (tools_of resp))
    \<and> snd (fetchTools exploreApi [] [])
         = (case exploreApi None of
              Rejected e \<Rightarrow> Rejected e
            | Fulfilled resp \<Rightarrow> Fulfilled (tools_of resp))"
proof -
  have sent: "fst (fetchTools exploreApi selectedTags selectedLifecycle)
      = [filter_request selectedTags selectedLifecycle]"
    by (simp add: fetchTools_def Let_def)
  have answer: "snd (fetchTools exploreApi ts ls)
      = (case exploreApi (filter_request ts ls) of
           Rejected e \<Rightarrow> Rejected e
         | Fulfilled resp \<Rightarrow> Fulfilled (tools_of resp))" for ts ls
    by (simp add: fetchTools_def Let_def)
  have empty: "snd (fetchTools exploreApi [] [])
      = (case exploreApi None of
           Rejected e \<Rightarrow> Rejected e
         | Fulfilled resp \<Rightarrow> Fulfilled (tools_of resp))"
    using assms by (simp add: answer)
  show ?thesis
    by (simp add: sent answer [of selectedTags selectedLifecycle] empty refresh_requests)
       (simp add: filter_request_def)
qed

theorem loadTools_filter_object_witness:
  "defaultTagFilterFunction (filter_request [] []) = defaultTagFilterFunction None
   \<and> snd (fetchTools defaultTagFilterFunction [] []) = Fulfilled (Some defaultTools)
   \<and> snd (fetchTools defaultTagFilterFunction [''landscape''] [])
       = Fulfilled (Some [defaultTools ! 1])"
  using loadTools_filter_object [where exploreApi = defaultTagFilterFunction
      and selectedTags = "[''landscape'']" and selectedLifecycle = "[]" and st = loaded_view]
  by (simp add: defaultTagFilterFunction_def filter_request_def tools_of_def)
     (simp add: defaultTools_def)

text \<open>
  C7, as stated, fails: when the catalog answers with zero tools, the ``No tools found''
  panel is rendered and so is a card grid.
\<close>

theorem empty_result_grid_counterexample:
  "shows_no_tools (render defaultProps (snd (refresh emptyCatalog (first_render seeded_history))))
   \<and> shows_grid (render defaultProps (snd (refresh emptyCatalog (first_render seeded_history))))"
  by (simp add: shows_no_tools_render shows_grid_render refresh_tools first_render_def
      fetchTools_def emptyCatalog_def tools_of_def)

text \<open>
  C7, amended. Whenever the filtered fetch of a mounted view succeeds with zero tools,
  the ``No tools found'' panel is rendered; it is another element than the failure
  warning, which is then rendered only if the options loader has failed; and the card
  grid is rendered with no card in it. What the options loader holds as its value never
  changes the progress bar, the warnings or the grid.
\<close>

theorem empty_result_indicator:
  assumes "exploreApi (filter_request (filteredTags st) (filteredLifecycle st))
             = Fulfilled (Some \<lparr>tools = Some []\<rparr>)"
    and "mounted st"
  shows "shows_no_tools (render p (snd (refresh exploreApi st)))
    \<and> WarningPanel ''No tools found'' \<noteq> WarningPanel ''Failed to load tools''
    \<and> List.filter is_grid (render p (snd (refresh exploreApi st))) = [ItemCardGrid []]
    \<and> error (state (toolsState (snd (refresh exploreApi st)))) = None
    \<and> (shows_failure (render p (snd (refresh exploreApi st)))
         \<longleftrightarrow> error (state (uniqueTagsAndLifecycle (snd (refresh exploreApi st)))) \<noteq> None)
    \<and> status_elements p
         (view\<lparr>uniqueTagsAndLifecycle := (uniqueTagsAndLifecycle view)
            \<lparr>state := (state (uniqueTagsAndLifecycle view))\<lparr>val := opts\<rparr>\<rparr>\<rparr>)
        = status_elements p view"
proof -
  have t: "state (toolsState (snd (refresh exploreApi st)))
      = \<lparr>loading = False, error = None, val = Some []\<rparr>"
    using assms by (simp add: refresh_tools fetchTools_def tools_of_def)
  show ?thesis
    by (simp add: shows_no_tools_render grids_render shows_failure_render t Body_def)
       (simp add: status_elements_def Let_def)
qed

theorem empty_result_indicator_witness:
  "emptyCatalog (filter_request (filteredTags loaded_view) (filteredLifecycle loaded_view))
      = Fulfilled (Some \<lparr>tools = Some []\<rparr>)
   \<and> mounted loaded_view
   \<and> shows_no_tools (render defaultProps (snd (refresh emptyCatalog loaded_view)))
   \<and> List.filter is_grid (render defaultProps (snd (refresh emptyCatalog loaded_view)))
       = [ItemCardGrid []]"
  using empty_result_indicator [where exploreApi = emptyCatalog and st = loaded_view
      and p = defaultProps and view = loaded_view and opts = None]
  by (simp add: emptyCatalog_def mounted_loaded_view)

lemma shows_grid_loaded_view: "shows_grid (render defaultProps loaded_view)"
  by (simp add: shows_grid_render loaded_view_def refresh_tools first_render_def
      fetchTools_def defaultTagFilterFunction_def filter_request_def tools_of_def
      initialize_def getAll_def seeded_history_def)






text \<open>
  C10. If the filtered fetch of a mounted view resolves with a nullish response,
  \<^verbatim>\<open>fetchTools\<close> resolves with \<^verbatim>\<open>undefined\<close>, the loader ends without error and without
  value, and the view renders neither the ``No tools found'' panel nor the card grid; the
  failure warning is rendered only if the options loader holds an error.
\<close>

theorem nullish_response_tools:
  assumes "exploreApi (filter_request (filteredTags st) (filteredLifecycle st)) = Fulfilled None"
    and "mounted st"
  shows "snd (fetchTools exploreApi (filteredTags st) (filteredLifecycle st)) = Fulfilled None
    \<and> state (toolsState (snd (refresh exploreApi st)))
        = \<lparr>loading = False, error = None, val = None\<rparr>
    \<and> \<not> shows_no_tools (render p (snd (refresh exploreApi st)))
    \<and> \<not> shows_grid (render p (snd (refresh exploreApi st)))
    \<and> (shows_failure (render p (snd (refresh exploreApi st)))
         \<longleftrightarrow> error (state (uniqueTagsAndLifecycle (snd (refresh exploreApi st)))) \<noteq> None)"
proof -
  have out: "snd (fetchTools exploreApi (filteredTags st) (filteredLifecycle st)) = Fulfilled None"
    using assms(1) by (simp add: fetchTools_def tools_of_def)
  have t: "state (toolsState (snd (refresh exploreApi st)))
      = \<lparr>loading = False, error = None, val = None\<rparr>"
    using assms(2) by (simp add: refresh_tools out)
  show ?thesis
    by (simp add: out shows_no_tools_render shows_grid_render shows_failure_render t)
qed

theorem nullish_response_tools_witness:
  "bareMock (filter_request (filteredTags loaded_view) (filteredLifecycle loaded_view))
      = Fulfilled None
   \<and> mounted loaded_view
   \<and> shows_grid (render defaultProps loaded_view)
   \<and> \<not> shows_no_tools (render defaultProps (snd (refresh bareMock loaded_view)))
   \<and> \<not> shows_grid (render defaultProps (snd (refresh bareMock loaded_view)))
   \<and> \<not> shows_failure (render defaultProps (snd (refresh bareMock loaded_view)))"
  using nullish_response_tools [where exploreApi = bareMock and st = loaded_view
      and p = defaultProps]
  by (simp add: bareMock_def mounted_loaded_view shows_grid_loaded_view refresh_options
      fetchTagsAndLifeCycles_def tools_of_def)

end
